theory Spec2Isabelle
  imports Main
begin

section \<open>Strings as the services use them\<close>

text \<open>
  JavaScript strings are modelled as \<^typ>\<open>string\<close>, one \<^typ>\<open>char\<close> per code unit
  below 256. \<open>String.prototype.trim\<close> removes white space and line terminators from
  both ends; in this range these are TAB, LF, VT, FF, CR, SPACE and NBSP.
\<close>

definition isWhiteSpace :: "char \<Rightarrow> bool" where
  "isWhiteSpace c = (c = CHR 0x09 \<or> c = CHR 0x0A \<or> c = CHR 0x0B \<or> c = CHR 0x0C
     \<or> c = CHR 0x0D \<or> c = CHR 0x20 \<or> c = CHR 0xA0)"

definition trim :: "string \<Rightarrow> string" where
  "trim s = rev (dropWhile isWhiteSpace (rev (dropWhile isWhiteSpace s)))"

text \<open>\<open>s.split('\n')\<close>: the pieces between line feeds; the empty string gives one empty piece.\<close>

primrec splitNL :: "string \<Rightarrow> string list" where
  "splitNL [] = [[]]"
| "splitNL (c # cs) =
     (if c = CHR 0x0A then [] # splitNL cs
      else (case splitNL cs of [] \<Rightarrow> [[c]] | l # ls \<Rightarrow> (c # l) # ls))"

text \<open>A number inside a template literal: its decimal digits.\<close>

function decimal :: "nat \<Rightarrow> string" where
  "decimal n = (if n < 10 then [''0123456789'' ! n]
                else decimal (n div 10) @ [''0123456789'' ! (n mod 10)])"
  by pat_completeness auto
termination
  by (relation "measure id") auto

declare decimal.simps [simp del]

section \<open>Data model (types.ts)\<close>

datatype LogType = INFO | SUCCESS | ERROR | WARNING

text \<open>
  A log entry. The source also stores \<open>id\<close> (from \<open>Math.random\<close>) and \<open>timestamp\<close>
  (from \<open>Date.now\<close>); no operation reads them back and they are left out.
\<close>

record LogEntry =
  message :: string
  ltype :: LogType
  txHash :: "string option"

datatype WalletStatus = Idle | Funding | Sending | Done | Error

record WalletAccount =
  address :: string
  privateKey :: string
  balance :: string
  txCount :: nat
  status :: WalletStatus

record FleetStats =
  totalTx :: nat
  successfulTx :: nat
  failedTx :: nat

section \<open>The chain client library\<close>

text \<open>
  The services call the \<open>ethers\<close> library, which is not part of the repository. Its pure
  functions are parameters of the model, collected in a record; what the network
  answers arrives with the events, see below. A thrown JavaScript error is a value
  with the two fields the application reads.
\<close>

record JsError =
  reason :: "string option"
  errMessage :: string

record Ethers =
  newWallet :: "string \<Rightarrow> JsError + string \<times> string"
    \<comment> \<open>\<open>new Wallet(key)\<close>: the address and the normalised private key, or the error thrown\<close>
  createRandom :: "nat \<Rightarrow> string \<times> string"
    \<comment> \<open>\<open>Wallet.createRandom()\<close>, by the number of the call\<close>
  parseEther :: "string \<Rightarrow> JsError + nat"
  formatEther :: "nat \<Rightarrow> string"

text \<open>What the services write to the browser console (\<open>console.warn\<close>, \<open>console.error\<close>).\<close>

datatype ConsoleLevel = ConsoleWarn | ConsoleError

type_synonym Console = "(ConsoleLevel \<times> string) list"

section \<open>services/celoService.ts\<close>

definition newAccount :: "string \<times> string \<Rightarrow> WalletAccount" where
  "newAccount w = \<lparr>address = fst w, privateKey = snd w, balance = ''0'', txCount = 0,
     status = Idle\<rparr>"

definition createWallets :: "Ethers \<Rightarrow> nat \<Rightarrow> WalletAccount list" where
  "createWallets E count = map (\<lambda>i. newAccount (createRandom E i)) [0..<count]"

text \<open>
  \<open>createWalletsFromKeys\<close>: the loop over the keys, with the wallets pushed and the
  console warnings written, both in the order of the input.
\<close>

fun createWalletsFromKeys :: "Ethers \<Rightarrow> string list \<Rightarrow> WalletAccount list \<times> Console" where
  "createWalletsFromKeys E [] = ([], [])"
| "createWalletsFromKeys E (key # keys) =
     (let (ws, con) = createWalletsFromKeys E keys in
      if key = [] \<or> trim key = [] then (ws, con)
      else (case newWallet E (trim key) of
              Inr w \<Rightarrow> (newAccount w # ws, con)
            | Inl e \<Rightarrow> (ws, (ConsoleWarn, ''Invalid key skipped during import: '' @ key) # con)))"

definition isValidPrivateKey :: "Ethers \<Rightarrow> string \<Rightarrow> bool" where
  "isValidPrivateKey E key = (case newWallet E key of Inr w \<Rightarrow> True | Inl e \<Rightarrow> False)"

text \<open>
  \<open>getBalance\<close>: the reply of \<open>provider.getBalance\<close> formatted, or \<open>'0'\<close> and a console
  error when the query throws.
\<close>

definition getBalance :: "Ethers \<Rightarrow> JsError + nat \<Rightarrow> string \<times> Console" where
  "getBalance E reply =
     (case reply of
        Inr b \<Rightarrow> (formatEther E b, [])
      | Inl e \<Rightarrow> (''0'', [(ConsoleError, ''Error fetching balance:'')]))"

text \<open>
  A transaction request as handed to \<open>wallet.sendTransaction\<close>; every field of the
  library's request type is optional, and the services set \<open>to\<close> and \<open>value\<close> always.
\<close>

record TxRequest =
  txTo :: string
  txValue :: nat
  txData :: "string option"
  txNonce :: "nat option"
  txGasLimit :: "nat option"

text \<open>
  \<open>executeInteraction\<close> (four parameters: wallet, target, data, optional nonce): the
  signing key and the request passed to \<open>sendTransaction\<close>. The signer is built from
  the key inside the same call, so key and request go to the client together.
\<close>

definition executeInteraction ::
  "WalletAccount \<Rightarrow> string \<Rightarrow> string \<Rightarrow> nat option \<Rightarrow> string \<times> TxRequest" where
  "executeInteraction walletData target data nonce =
     (privateKey walletData,
      \<lparr>txTo = target, txValue = 0, txData = Some (if data = [] then ''0x'' else data),
       txNonce = nonce, txGasLimit = None\<rparr>)"

section \<open>What the chain client is asked and what it answers\<close>

text \<open>
  The network is not modelled: its answers are inputs. Every call handed to the client
  and every answer that resumes the application is appended to a history kept with
  the state, tagged with the fleet index on whose behalf it happened. The history is
  an observer's record (a mock collaborator's log); the application never reads it.
  \<open>Notified\<close> marks the moment \<open>fundWallets\<close> invokes its progress callback.
\<close>

datatype Reply =
    NonceReply "JsError + nat"
  | SendReply "JsError + string"
  | WaitReply "JsError + unit"
  | BalanceReply "JsError + nat"
  | TimerFired

datatype ChainIO =
    GetTransactionCount string
  | SendTransaction string TxRequest
  | WaitFor string nat
  | GetBalanceOf string
  | Replied Reply
  | Notified string

type_synonym History = "(nat \<times> ChainIO) list"

section \<open>Application state (App.tsx)\<close>

datatype WalletMode = Generate | Import

record Form =
  targetContract :: string
  walletMode :: WalletMode
  walletCount :: nat
  importText :: string
  interactionsPerWallet :: nat
  fundingAmount :: string
  funderKey :: string
  customData :: string
  gasLimit :: nat

text \<open>
  One task per wallet of a swarm: the values its closure captured when the swarm was
  started, its local \<open>nonce\<close> variable, and the \<open>await\<close> at which it is suspended.
\<close>

datatype Pc = AwaitNonce | AwaitSend nat | AwaitDelay nat | Finished

record SwarmTask =
  tWallet :: WalletAccount
  tTarget :: string
  tData :: string
  tCount :: nat
  tGasLimit :: nat
  tNonce :: nat
  tPc :: Pc

record App =
  isFunding :: bool
  isSwarming :: bool
  logs :: "LogEntry list"
  wallets :: "WalletAccount list"
  stats :: FleetStats
  form :: Form
  console :: Console
  history :: History
  tasks :: "SwarmTask list"

definition zeroStats :: FleetStats where
  "zeroStats = \<lparr>totalTx = 0, successfulTx = 0, failedTx = 0\<rparr>"

definition initialForm :: Form where
  "initialForm = \<lparr>targetContract = [], walletMode = Generate, walletCount = 5,
     importText = [], interactionsPerWallet = 10, fundingAmount = ''0.01'', funderKey = [],
     customData = [], gasLimit = 300000\<rparr>"

definition initialApp :: App where
  "initialApp = \<lparr>isFunding = False, isSwarming = False,
     logs = [\<lparr>message = ''System Ready. Waiting for Celo Mainnet command.'', ltype = INFO,
              txHash = None\<rparr>],
     wallets = [], stats = zeroStats, form = initialForm, console = [], history = [],
     tasks = []\<rparr>"

definition addLog :: "string \<Rightarrow> LogType \<Rightarrow> string option \<Rightarrow> App \<Rightarrow> App" where
  "addLog m t h st = st\<lparr>logs := logs st @ [\<lparr>message = m, ltype = t, txHash = h\<rparr>]\<rparr>"

definition observe :: "nat \<Rightarrow> ChainIO \<Rightarrow> App \<Rightarrow> App" where
  "observe w io st = st\<lparr>history := history st @ [(w, io)]\<rparr>"

text \<open>
  The updater \<open>prev => { const updated = [...prev]; if (updated[i]) updated[i].f = v;
  return updated }\<close>: the entry at \<open>i\<close> changes when the index is in range. State
  updates take effect in the order in which they are issued, each updater once.
\<close>

definition updateAt ::
  "nat \<Rightarrow> (WalletAccount \<Rightarrow> WalletAccount) \<Rightarrow> WalletAccount list \<Rightarrow> WalletAccount list" where
  "updateAt i f ws = (if i < length ws then ws[i := f (ws ! i)] else ws)"

definition setWallets :: "(WalletAccount list \<Rightarrow> WalletAccount list) \<Rightarrow> App \<Rightarrow> App" where
  "setWallets f st = st\<lparr>wallets := f (wallets st)\<rparr>"

definition setStats :: "(FleetStats \<Rightarrow> FleetStats) \<Rightarrow> App \<Rightarrow> App" where
  "setStats f st = st\<lparr>stats := f (stats st)\<rparr>"

subsection \<open>updateFleetBalances\<close>

text \<open>
  The loop of \<open>updateFleetBalances\<close> from index \<open>i\<close> on: one balance query per wallet,
  answered by \<open>rep i\<close>. The wallet objects of \<open>currentWallets\<close> are the ones the state
  holds, so callers pass the state's list.
\<close>

fun refreshFrom ::
  "Ethers \<Rightarrow> (nat \<Rightarrow> JsError + nat) \<Rightarrow> nat \<Rightarrow> WalletAccount list
     \<Rightarrow> WalletAccount list \<times> Console \<times> History" where
  "refreshFrom E rep i [] = ([], [], [])"
| "refreshFrom E rep i (w # ws) =
     (let (bal, con) = getBalance E (rep i);
          (ws', con', io) = refreshFrom E rep (Suc i) ws
      in (w\<lparr>balance := bal\<rparr> # ws', con @ con',
          (i, GetBalanceOf (address w)) # (i, Replied (BalanceReply (rep i))) # io))"

definition updateFleetBalances ::
  "Ethers \<Rightarrow> (nat \<Rightarrow> JsError + nat) \<Rightarrow> WalletAccount list \<Rightarrow> App \<Rightarrow> App" where
  "updateFleetBalances E rep currentWallets st =
     (let st1 = addLog ''Refreshing fleet balances...'' INFO None st;
          (ws, con, io) = refreshFrom E rep 0 currentWallets
      in st1\<lparr>wallets := ws, console := console st1 @ con, history := history st1 @ io\<rparr>)"

subsection \<open>prepareFleet and resetFleet\<close>

definition prepareFleet :: "Ethers \<Rightarrow> App \<Rightarrow> WalletAccount list \<times> App" where
  "prepareFleet E st =
     (if walletMode (form st) = Generate then
        let st1 = addLog (''Generating '' @ decimal (walletCount (form st)) @ '' fresh wallets...'')
                    INFO None st;
            newWallets = createWallets E (walletCount (form st));
            st2 = addLog ''Wallets generated successfully.'' SUCCESS None st1
        in (newWallets, st2\<lparr>wallets := newWallets\<rparr>)
      else
        let st1 = addLog ''Parsing imported keys...'' INFO None st;
            (newWallets, con) = createWalletsFromKeys E (splitNL (importText (form st)));
            st2 = st1\<lparr>console := console st1 @ con\<rparr>
        in if newWallets = [] then
             ([], addLog ''No valid keys found in import.'' ERROR None st2)
           else
             (newWallets,
              (addLog (''Imported '' @ decimal (length newWallets) @ '' wallets.'') SUCCESS None st2)
                \<lparr>wallets := newWallets\<rparr>))"

definition resetFleet :: "App \<Rightarrow> App" where
  "resetFleet st =
     addLog ''Fleet reset. Ready for new configuration.'' INFO None
       (st\<lparr>wallets := [], stats := zeroStats\<rparr>)"

text \<open>
  The reset button is rendered while the fleet is not empty and is \<open>disabled\<close> while
  \<open>isBusy = isFunding || isSwarming\<close>: a click on a disabled button runs no handler.
  \<open>None\<close>: there is no button to click.
\<close>

definition isBusy :: "App \<Rightarrow> bool" where
  "isBusy st = (isFunding st \<or> isSwarming st)"

definition clickResetFleet :: "App \<Rightarrow> App option" where
  "clickResetFleet st =
     (if wallets st = [] then None
      else if isBusy st then Some st
      else Some (resetFleet st))"

definition clickRefresh :: "Ethers \<Rightarrow> (nat \<Rightarrow> JsError + nat) \<Rightarrow> App \<Rightarrow> App option" where
  "clickRefresh E rep st =
     (if wallets st = [] then None
      else if isBusy st then Some st
      else Some (updateFleetBalances E rep (wallets st) st))"

definition handleDownloadWallets :: "App \<Rightarrow> App" where
  "handleDownloadWallets st =
     (if wallets st = [] then addLog ''No wallets to download.'' WARNING None st
      else addLog ''Wallets exported to CSV.'' SUCCESS None st)"

subsection \<open>fundWallets and handleFundFleet\<close>

text \<open>
  The sources hold two revisions of the service. \<open>App.tsx\<close> imports \<open>getWalletNonce\<close> and
  \<open>getWalletInfo\<close>, which only the later revision exports, so that one is modelled here
  (the earlier one invokes the callback before it awaits \<open>tx.wait(1)\<close>).

  One pass of the loop of \<open>fundWallets\<close>, for target \<open>t\<close> at index \<open>i\<close>, and the loop from
  index \<open>i\<close> on. The transfer is sent; when the send is accepted the loop awaits
  \<open>tx.wait(1)\<close>; when that resolves the callback runs. Either await may throw: the
  \<open>catch\<close> writes a console error and the loop goes on. \<open>sendRep i\<close> and \<open>waitRep i\<close> are
  the client's answers for target \<open>i\<close>.
\<close>

definition fundOne ::
  "(nat \<Rightarrow> JsError + string) \<Rightarrow> (nat \<Rightarrow> JsError + unit) \<Rightarrow> string \<Rightarrow> nat
     \<Rightarrow> (nat \<Rightarrow> string \<Rightarrow> App \<Rightarrow> App) \<Rightarrow> nat \<Rightarrow> WalletAccount \<Rightarrow> App \<Rightarrow> App" where
  "fundOne sendRep waitRep key amountWei onProgress i t st =
     (let failed = (\<lambda>s. s\<lparr>console := console s @
                      [(ConsoleError, ''Funding failed for wallet '' @ decimal i)]\<rparr>);
          st1 = observe i (Replied (SendReply (sendRep i)))
                  (observe i (SendTransaction key
                     \<lparr>txTo = address t, txValue = amountWei, txData = None, txNonce = None,
                      txGasLimit = None\<rparr>) st)
      in case sendRep i of
           Inl e \<Rightarrow> failed st1
         | Inr txh \<Rightarrow>
             (let st2 = observe i (Replied (WaitReply (waitRep i)))
                          (observe i (WaitFor txh 1) st1)
              in case waitRep i of
                   Inl e \<Rightarrow> failed st2
                 | Inr u \<Rightarrow> onProgress i txh (observe i (Notified txh) st2)))"

fun fundLoop ::
  "(nat \<Rightarrow> JsError + string) \<Rightarrow> (nat \<Rightarrow> JsError + unit) \<Rightarrow> string \<Rightarrow> nat
     \<Rightarrow> (nat \<Rightarrow> string \<Rightarrow> App \<Rightarrow> App) \<Rightarrow> nat \<Rightarrow> WalletAccount list \<Rightarrow> App \<Rightarrow> App" where
  "fundLoop sendRep waitRep key amountWei onProgress i [] st = st"
| "fundLoop sendRep waitRep key amountWei onProgress i (t # ts) st =
     fundLoop sendRep waitRep key amountWei onProgress (Suc i) ts
       (fundOne sendRep waitRep key amountWei onProgress i t st)"

text \<open>\<open>fundWallets\<close> rejects (\<open>Inl\<close>) when the funder key or the amount does not parse.\<close>

definition fundWallets ::
  "Ethers \<Rightarrow> (nat \<Rightarrow> JsError + string) \<Rightarrow> (nat \<Rightarrow> JsError + unit) \<Rightarrow> string
     \<Rightarrow> WalletAccount list \<Rightarrow> string \<Rightarrow> (nat \<Rightarrow> string \<Rightarrow> App \<Rightarrow> App) \<Rightarrow> App
     \<Rightarrow> JsError + App" where
  "fundWallets E sendRep waitRep funderPrivateKey targets amountPerWallet onProgress st =
     (case newWallet E funderPrivateKey of
        Inl e \<Rightarrow> Inl e
      | Inr funder \<Rightarrow>
          (case parseEther E amountPerWallet of
             Inl e \<Rightarrow> Inl e
           | Inr amountWei \<Rightarrow>
               Inr (fundLoop sendRep waitRep (snd funder) amountWei onProgress 0 targets st)))"

text \<open>
  The callback \<open>handleFundFleet\<close> passes to \<open>fundWallets\<close>, and the handler itself. The
  list it refreshes at the end, \<open>currentWallets\<close>, holds the very wallet objects of the
  state, which the callbacks have updated in place: it is the state's list.
\<close>

definition onFunded :: "nat \<Rightarrow> string \<Rightarrow> App \<Rightarrow> App" where
  "onFunded index txh st =
     setWallets (updateAt index (\<lambda>a. a\<lparr>status := Funding\<rparr>))
       (addLog (''Funded Wallet '' @ decimal (index + 1) @ '' - Confirmed'') SUCCESS (Some txh) st)"

definition handleFundFleet ::
  "Ethers \<Rightarrow> (nat \<Rightarrow> JsError + string) \<Rightarrow> (nat \<Rightarrow> JsError + unit) \<Rightarrow> (nat \<Rightarrow> JsError + nat)
     \<Rightarrow> App \<Rightarrow> App" where
  "handleFundFleet E sendRep waitRep balRep st =
     (if isFunding st \<or> isSwarming st then st
      else if \<not> isValidPrivateKey E (funderKey (form st)) then
        addLog ''Invalid Funder Private Key'' ERROR None st
      else
        let st1 = st\<lparr>isFunding := True\<rparr>;
            prepared = (if wallets st1 = [] then snd (prepareFleet E st1) else st1);
            currentWallets = (if wallets st1 = [] then fst (prepareFleet E st1) else wallets st1);
            caught = (\<lambda>e s. addLog (''Funding Error: '' @ errMessage e) ERROR None s);
            st2 =
              (if currentWallets = [] then
                 caught \<lparr>reason = None, errMessage = ''Failed to initialize fleet.''\<rparr> prepared
               else
                 let st3 = addLog (''Dispersing '' @ fundingAmount (form st) @ '' CELO to ''
                             @ decimal (length currentWallets) @ '' wallets (Blocking)...'')
                             INFO None prepared
                 in case fundWallets E sendRep waitRep (funderKey (form st)) currentWallets
                           (fundingAmount (form st)) onFunded st3 of
                      Inl e \<Rightarrow> caught e st3
                    | Inr st4 \<Rightarrow>
                        addLog ''Funding sequence complete. Fleet Ready.'' SUCCESS None
                          (updateFleetBalances E balRep (wallets st4)
                             (addLog ''Funds confirmed. Waiting 3s for network propagation...''
                                WARNING None st4)))
        in st2\<lparr>isFunding := False\<rparr>)"

subsection \<open>handleStartSwarm\<close>

definition spawn :: "Form \<Rightarrow> WalletAccount \<Rightarrow> SwarmTask" where
  "spawn f wallet = \<lparr>tWallet = wallet, tTarget = targetContract f, tData = customData f,
     tCount = interactionsPerWallet f, tGasLimit = gasLimit f, tNonce = 0, tPc = AwaitNonce\<rparr>"

text \<open>
  The synchronous part of \<open>handleStartSwarm\<close>: the guards, the reset of the counters,
  four log entries, and \<open>wallets.map(async ...)\<close>, which runs every task up to its first
  \<open>await\<close>, the nonce query.
\<close>

definition handleStartSwarm :: "App \<Rightarrow> App" where
  "handleStartSwarm st =
     (if isFunding st \<or> isSwarming st then st
      else if targetContract (form st) = [] then
        addLog ''Target Contract address required'' ERROR None st
      else if wallets st = [] then
        addLog ''No active fleet. Generate or Fund first.'' ERROR None st
      else
        let st1 = st\<lparr>isSwarming := True, stats := zeroStats\<rparr>;
            st2 = addLog ''INITIATING SWARM SEQUENCE...'' INFO None st1;
            st3 = addLog (''TARGET: '' @ targetContract (form st)) INFO None st2;
            st4 = addLog (''INTENSITY: '' @ decimal (interactionsPerWallet (form st))
                    @ '' txs per wallet'') INFO None st3;
            st5 = addLog (''GAS LIMIT: '' @ decimal (gasLimit (form st))
                    @ '' (Estimation Skipped)'') INFO None st4
        in st5\<lparr>tasks := map (spawn (form st)) (wallets st),
               history := history st5 @
                 map (\<lambda>(i, w). (i, GetTransactionCount (address w))) (enumerate 0 (wallets st))\<rparr>)"

text \<open>
  The head of the \<open>for\<close> loop of task \<open>w\<close> at iteration \<open>i\<close>: either the next transaction is
  handed to the client (status \<open>sending\<close>, the request built by \<open>executeInteraction\<close>
  with the local nonce, \<open>nonce++\<close>), or the loop is over and the status becomes \<open>done\<close>.
  The call in the source passes \<open>gasLimit\<close> as a fifth argument; \<open>executeInteraction\<close>
  declares four parameters, so the value is bound to nothing.
\<close>

definition setTask :: "nat \<Rightarrow> (SwarmTask \<Rightarrow> SwarmTask) \<Rightarrow> App \<Rightarrow> App" where
  "setTask w f st = st\<lparr>tasks := (tasks st)[w := f (tasks st ! w)]\<rparr>"

definition iteration :: "nat \<Rightarrow> nat \<Rightarrow> App \<Rightarrow> App" where
  "iteration w i st =
     (let t = tasks st ! w in
      if i < tCount t then
        let st1 = setWallets (updateAt w (\<lambda>a. a\<lparr>status := Sending\<rparr>)) st;
            call = executeInteraction (tWallet t) (tTarget t) (tData t) (Some (tNonce t));
            st2 = observe w (SendTransaction (fst call) (snd call)) st1
        in setTask w (\<lambda>t. t\<lparr>tNonce := tNonce t + 1, tPc := AwaitSend i\<rparr>) st2
      else
        setTask w (\<lambda>t. t\<lparr>tPc := Finished\<rparr>)
          (setWallets (updateAt w (\<lambda>a. a\<lparr>status := Done\<rparr>)) st))"

definition failureReason :: "JsError \<Rightarrow> string" where
  "failureReason e =
     (case reason e of
        Some r \<Rightarrow> if r \<noteq> [] then r
                  else if errMessage e \<noteq> [] then errMessage e else ''Unknown error''
      | None \<Rightarrow> if errMessage e \<noteq> [] then errMessage e else ''Unknown error'')"

text \<open>
  Task \<open>w\<close>, suspended at \<open>pc\<close>, is resumed by the answer it awaits. An answer that does
  not fit the pending \<open>await\<close> changes nothing.
\<close>

fun resumeAt :: "nat \<Rightarrow> Pc \<Rightarrow> Reply \<Rightarrow> App \<Rightarrow> App" where
  "resumeAt w AwaitNonce (NonceReply (Inr n)) st =
     iteration w 0 (setTask w (\<lambda>t. t\<lparr>tNonce := n\<rparr>) (observe w (Replied (NonceReply (Inr n))) st))"
| "resumeAt w AwaitNonce (NonceReply (Inl e)) st =
     setTask w (\<lambda>t. t\<lparr>tPc := Finished\<rparr>)
       (addLog (''[W'' @ decimal (w + 1) @ ''] Failed to fetch initial nonce.'') ERROR None
          (observe w (Replied (NonceReply (Inl e))) st))"
| "resumeAt w (AwaitSend i) (SendReply (Inr txh)) st =
     setTask w (\<lambda>t. t\<lparr>tPc := AwaitDelay i\<rparr>)
       (setWallets (updateAt w (\<lambda>a. a\<lparr>txCount := txCount a + 1\<rparr>))
          (setStats (\<lambda>s. s\<lparr>totalTx := totalTx s + 1, successfulTx := successfulTx s + 1\<rparr>)
             (addLog (''[W'' @ decimal (w + 1) @ ''] Tx '' @ decimal (i + 1) @ ''/''
                        @ decimal (tCount (tasks st ! w)) @ '' confirmed'') SUCCESS (Some txh)
                (observe w (Replied (SendReply (Inr txh))) st))))"
| "resumeAt w (AwaitSend i) (SendReply (Inl e)) st =
     setTask w (\<lambda>t. t\<lparr>tPc := AwaitDelay i\<rparr>)
       (setWallets (updateAt w (\<lambda>a. a\<lparr>status := Error\<rparr>))
          (setStats (\<lambda>s. s\<lparr>totalTx := totalTx s + 1, failedTx := failedTx s + 1\<rparr>)
             (addLog (''[W'' @ decimal (w + 1) @ ''] Tx Failed: '' @ failureReason e) ERROR None
                (observe w (Replied (SendReply (Inl e))) st))))"
| "resumeAt w (AwaitDelay i) TimerFired st = iteration w (Suc i) st"
| "resumeAt w pc r st = st"

definition resume :: "nat \<Rightarrow> Reply \<Rightarrow> App \<Rightarrow> App" where
  "resume w r st = (if w < length (tasks st) then resumeAt w (tPc (tasks st ! w)) r st else st)"

text \<open>
  The continuation of \<open>Promise.all\<close>, once every task has returned: the completion entry,
  the balance refresh it triggers (taken here in one step, with the answers \<open>balRep\<close>),
  and \<open>finally\<close> the flag.
\<close>

definition swarmJoin :: "Ethers \<Rightarrow> (nat \<Rightarrow> JsError + nat) \<Rightarrow> App \<Rightarrow> App" where
  "swarmJoin E balRep st =
     (if isSwarming st \<and> list_all (\<lambda>t. tPc t = Finished) (tasks st) then
        let st1 = addLog ''SWARM COMPLETE.'' SUCCESS None st;
            st2 = updateFleetBalances E balRep (wallets st1) st1
        in st2\<lparr>isSwarming := False, tasks := []\<rparr>
      else st)"

section \<open>Events\<close>

text \<open>
  What can happen to the application: the operator's clicks and edits, and the
  answers that resume a suspended task. Funding and refreshing await one answer at a
  time and nothing else can touch the fleet meanwhile, so each is one event carrying
  all its answers. The handlers for funding and starting check the busy flags
  themselves, so their events run the handler; resetting and refreshing rely on the
  disabled button. Generating a payload and exporting the CSV only add log entries or
  edit the form.
\<close>

datatype Event =
    ClickFund "nat \<Rightarrow> JsError + string" "nat \<Rightarrow> JsError + unit" "nat \<Rightarrow> JsError + nat"
  | ClickStart
  | Resume nat Reply
  | Join "nat \<Rightarrow> JsError + nat"
  | ClickReset
  | ClickRefresh "nat \<Rightarrow> JsError + nat"
  | ClickDownload
  | EditForm Form

fun step :: "Ethers \<Rightarrow> Event \<Rightarrow> App \<Rightarrow> App" where
  "step E (ClickFund sendRep waitRep balRep) st = handleFundFleet E sendRep waitRep balRep st"
| "step E ClickStart st = handleStartSwarm st"
| "step E (Resume w r) st = resume w r st"
| "step E (Join balRep) st = swarmJoin E balRep st"
| "step E ClickReset st = (case clickResetFleet st of None \<Rightarrow> st | Some st' \<Rightarrow> st')"
| "step E (ClickRefresh balRep) st =
     (case clickRefresh E balRep st of None \<Rightarrow> st | Some st' \<Rightarrow> st')"
| "step E ClickDownload st = handleDownloadWallets st"
| "step E (EditForm f) st = st\<lparr>form := f\<rparr>"

definition run :: "Ethers \<Rightarrow> Event list \<Rightarrow> App \<Rightarrow> App" where
  "run E evs st = foldl (\<lambda>s e. step E e s) st evs"

section \<open>Notions used in the statements\<close>

text \<open>
  A line of the import text that yields a wallet: it is not blank and its trimmed form
  is a key the library accepts. A line that is skipped with a warning: not blank, and
  not accepted.
\<close>

definition parsesAsKey :: "Ethers \<Rightarrow> string \<Rightarrow> bool" where
  "parsesAsKey E k = (trim k \<noteq> [] \<and> isValidPrivateKey E (trim k))"

definition invalidLine :: "Ethers \<Rightarrow> string \<Rightarrow> bool" where
  "invalidLine E k = (trim k \<noteq> [] \<and> \<not> isValidPrivateKey E (trim k))"

text \<open>What one key contributes to an import: at most one wallet, at most one warning.\<close>

definition importKey :: "Ethers \<Rightarrow> string \<Rightarrow> WalletAccount list \<times> Console" where
  "importKey E k =
     (if trim k = [] then ([], [])
      else case newWallet E (trim k) of
             Inr w \<Rightarrow> ([newAccount w], [])
           | Inl e \<Rightarrow> ([], [(ConsoleWarn, ''Invalid key skipped during import: '' @ k)]))"

primrec countLogs :: "LogType \<Rightarrow> LogEntry list \<Rightarrow> nat" where
  "countLogs t [] = 0"
| "countLogs t (l # ls) = (if ltype l = t then 1 else 0) + countLogs t ls"

text \<open>The balance queries of a history, in order.\<close>

fun balanceQueries :: "History \<Rightarrow> string list" where
  "balanceQueries [] = []"
| "balanceQueries ((i, GetBalanceOf a) # h) = a # balanceQueries h"
| "balanceQueries (x # h) = balanceQueries h"

text \<open>Every counter of the first is at most the counter of the second.\<close>

definition statsLe :: "FleetStats \<Rightarrow> FleetStats \<Rightarrow> bool" where
  "statsLe a b = (totalTx a \<le> totalTx b \<and> successfulTx a \<le> successfulTx b
     \<and> failedTx a \<le> failedTx b)"

text \<open>The confirmations a history asks the client to wait for.\<close>

fun waits :: "History \<Rightarrow> string list" where
  "waits [] = []"
| "waits ((i, WaitFor txh n) # h) = txh # waits h"
| "waits (x # h) = waits h"


subsection \<open>The trace of one swarm task\<close>

text \<open>
  The entries of a history that belong to fleet index \<open>w\<close>, and of the history of \<open>s\<close>
  those added since \<open>s0\<close>.
\<close>

definition taskTrace :: "nat \<Rightarrow> History \<Rightarrow> ChainIO list" where
  "taskTrace w h = map snd (filter (\<lambda>x. fst x = w) h)"


text \<open>
  In a trace: the addresses whose nonce was queried, the nonces the network answered,
  and the nonce fields of the requests handed to the client.
\<close>

fun nonceFetches :: "ChainIO list \<Rightarrow> string list" where
  "nonceFetches [] = []"
| "nonceFetches (GetTransactionCount a # tr) = a # nonceFetches tr"
| "nonceFetches (x # tr) = nonceFetches tr"

fun fetchedNonces :: "ChainIO list \<Rightarrow> nat list" where
  "fetchedNonces [] = []"
| "fetchedNonces (Replied (NonceReply (Inr n)) # tr) = n # fetchedNonces tr"
| "fetchedNonces (x # tr) = fetchedNonces tr"

fun sentNonces :: "ChainIO list \<Rightarrow> nat option list" where
  "sentNonces [] = []"
| "sentNonces (SendTransaction key req # tr) = txNonce req # sentNonces tr"
| "sentNonces (x # tr) = sentNonces tr"


text \<open>
  For the proofs: what resuming a task does to the task itself and which entries it
  appends to the history, and the relation between a task and its trace that every
  step keeps.
\<close>

definition iterationT :: "nat \<Rightarrow> SwarmTask \<Rightarrow> SwarmTask \<times> ChainIO list" where
  "iterationT i t =
     (if i < tCount t then
        (t\<lparr>tNonce := tNonce t + 1, tPc := AwaitSend i\<rparr>,
         [SendTransaction (fst (executeInteraction (tWallet t) (tTarget t) (tData t) (Some (tNonce t))))
            (snd (executeInteraction (tWallet t) (tTarget t) (tData t) (Some (tNonce t))))])
      else (t\<lparr>tPc := Finished\<rparr>, []))"

fun taskStep :: "Pc \<Rightarrow> Reply \<Rightarrow> SwarmTask \<Rightarrow> SwarmTask \<times> ChainIO list" where
  "taskStep AwaitNonce (NonceReply (Inr n)) t =
     (fst (iterationT 0 (t\<lparr>tNonce := n\<rparr>)),
      Replied (NonceReply (Inr n)) # snd (iterationT 0 (t\<lparr>tNonce := n\<rparr>)))"
| "taskStep AwaitNonce (NonceReply (Inl e)) t =
     (t\<lparr>tPc := Finished\<rparr>, [Replied (NonceReply (Inl e))])"
| "taskStep (AwaitSend i) (SendReply (Inr txh)) t =
     (t\<lparr>tPc := AwaitDelay i\<rparr>, [Replied (SendReply (Inr txh))])"
| "taskStep (AwaitSend i) (SendReply (Inl e)) t =
     (t\<lparr>tPc := AwaitDelay i\<rparr>, [Replied (SendReply (Inl e))])"
| "taskStep (AwaitDelay i) TimerFired t = iterationT (Suc i) t"
| "taskStep pc r t = (t, [])"



subsection \<open>The trace of a funding pass\<close>

text \<open>
  The transfers a history hands to the client (fleet index, signing key, destination,
  amount), and the progress notifications it records (fleet index, transaction hash).
\<close>

fun transfers :: "History \<Rightarrow> (nat \<times> string \<times> string \<times> nat) list" where
  "transfers [] = []"
| "transfers ((i, SendTransaction key req) # h) = (i, key, txTo req, txValue req) # transfers h"
| "transfers (x # h) = transfers h"

fun notified :: "History \<Rightarrow> (nat \<times> string) list" where
  "notified [] = []"
| "notified ((i, Notified txh) # h) = (i, txh) # notified h"
| "notified (x # h) = notified h"

text \<open>
  A transfer is pending from the moment it is handed to the client until the send is
  rejected or the wait for its confirmation resolves. \<open>pendingAfter c h\<close> counts the
  pending transfers after \<open>h\<close>, starting from \<open>c\<close>; \<open>oneAtATime c h\<close> holds when every
  transfer of \<open>h\<close> is handed over while none is pending.
\<close>

fun pendingAfter :: "nat \<Rightarrow> History \<Rightarrow> nat" where
  "pendingAfter c [] = c"
| "pendingAfter c ((i, SendTransaction key req) # h) = pendingAfter (Suc c) h"
| "pendingAfter c ((i, Replied (SendReply (Inl e))) # h) = pendingAfter (c - 1) h"
| "pendingAfter c ((i, Replied (WaitReply r)) # h) = pendingAfter (c - 1) h"
| "pendingAfter c (x # h) = pendingAfter c h"

fun oneAtATime :: "nat \<Rightarrow> History \<Rightarrow> bool" where
  "oneAtATime c [] = True"
| "oneAtATime c ((i, SendTransaction key req) # h) = (c = 0 \<and> oneAtATime (Suc c) h)"
| "oneAtATime c ((i, Replied (SendReply (Inl e))) # h) = oneAtATime (c - 1) h"
| "oneAtATime c ((i, Replied (WaitReply r)) # h) = oneAtATime (c - 1) h"
| "oneAtATime c (x # h) = oneAtATime c h"






subsection \<open>Concrete inputs\<close>

text \<open>
  A library that accepts the two keys \<open>k1\<close> and \<open>k2\<close> and rejects every other string, and
  a few application states built from the initial one.
\<close>

definition invalidKeyError :: JsError where
  "invalidKeyError = \<lparr>reason = None, errMessage = ''invalid private key''\<rparr>"

definition testEthers :: Ethers where
  "testEthers = \<lparr>
     newWallet = (\<lambda>k. if k = ''k1'' then Inr (''a1'', ''k1'')
                      else if k = ''k2'' then Inr (''a2'', ''k2'') else Inl invalidKeyError),
     createRandom = (\<lambda>i. (''r'', ''r'')),
     parseEther = (\<lambda>s. Inr 10),
     formatEther = (\<lambda>n. if n = 0 then ''0.0'' else ''1.0'')\<rparr>"

definition wallet1 :: WalletAccount where
  "wallet1 = newAccount (''a1'', ''k1'')"

definition wallet2 :: WalletAccount where
  "wallet2 = newAccount (''a2'', ''k2'')"

definition importState :: App where
  "importState = initialApp\<lparr>form := initialForm\<lparr>walletMode := Import, importText := ''zz''\<rparr>\<rparr>"

definition readyState :: App where
  "readyState = initialApp\<lparr>wallets := [wallet1],
     form := initialForm\<lparr>targetContract := ''0xABC'', interactionsPerWallet := 1\<rparr>\<rparr>"

definition noTargetState :: App where
  "noTargetState = initialApp\<lparr>wallets := [wallet1]\<rparr>"

definition busyState :: App where
  "busyState = noTargetState\<lparr>isSwarming := True\<rparr>"

definition mixedImportState :: App where
  "mixedImportState = initialApp\<lparr>form := initialForm\<lparr>walletMode := Import,
     importText := ''k1'' @ [CHR 0x0A] @ ''zz''\<rparr>\<rparr>"

definition fleetOfTwo :: App where
  "fleetOfTwo = initialApp\<lparr>wallets := [wallet1, wallet2\<lparr>txCount := 3, status := Done\<rparr>]\<rparr>"

definition queryFailed :: JsError where
  "queryFailed = \<lparr>reason = None, errMessage = ''network error''\<rparr>"

definition usedState :: App where
  "usedState = readyState\<lparr>stats := \<lparr>totalTx = 3, successfulTx = 2, failedTx = 1\<rparr>\<rparr>"

definition sendRejected :: JsError where
  "sendRejected = \<lparr>reason = Some ''nonce too low'', errMessage = ''rejected''\<rparr>"



section \<open>Import and key validation\<close>

lemma trim_Nil: "trim [] = []"
  by (simp add: trim_def)

lemma cwfk_Cons:
  "createWalletsFromKeys E (k # ks) =
     (fst (importKey E k) @ fst (createWalletsFromKeys E ks),
      snd (importKey E k) @ snd (createWalletsFromKeys E ks))"
  by (auto simp: importKey_def trim_Nil split: sum.splits prod.splits)

lemma cwfk_single: "createWalletsFromKeys E [k] = importKey E k"
  by (simp add: cwfk_Cons del: createWalletsFromKeys.simps(2))

lemma importKey_length:
  "length (fst (importKey E k)) = (if parsesAsKey E k then 1 else 0)"
  by (simp add: importKey_def parsesAsKey_def isValidPrivateKey_def split: sum.splits)

lemma importKey_console:
  "snd (importKey E k) =
     (if invalidLine E k then [(ConsoleWarn, ''Invalid key skipped during import: '' @ k)] else [])"
  by (simp add: importKey_def invalidLine_def isValidPrivateKey_def split: sum.splits)

lemma cwfk_fst_concat:
  "fst (createWalletsFromKeys E ks) = concat (map (\<lambda>k. fst (importKey E k)) ks)"
  by (induction ks) (simp_all add: cwfk_Cons del: createWalletsFromKeys.simps(2))

lemma cwfk_length:
  "length (fst (createWalletsFromKeys E ks)) = length (filter (parsesAsKey E) ks)"
  by (induction ks) (simp_all add: cwfk_Cons importKey_length del: createWalletsFromKeys.simps(2))

lemma cwfk_console:
  "snd (createWalletsFromKeys E ks) =
     map (\<lambda>k. (ConsoleWarn, ''Invalid key skipped during import: '' @ k)) (filter (invalidLine E) ks)"
  by (induction ks) (simp_all add: cwfk_Cons importKey_console del: createWalletsFromKeys.simps(2))

lemma countLogs_append: "countLogs t (xs @ ys) = countLogs t xs + countLogs t ys"
  by (induction xs) simp_all

text \<open>
  C10. Import and key validation agree up to trimming. A single key yields one wallet
  when its trimmed form is accepted by \<open>isValidPrivateKey\<close> and it is not blank, and
  none otherwise; the wallet is the one the library builds from the trimmed key. For
  a list of keys the result is, in input order, the concatenation of what each key
  yields alone, so its length is the number of keys that parse; where the library
  rejects the empty string, that is the number of keys whose trimmed form is valid.
\<close>

theorem import_agrees_with_validation:
  "length (fst (createWalletsFromKeys E [k]))
     = (if isValidPrivateKey E (trim k) \<and> trim k \<noteq> [] then 1 else 0)
   \<and> (\<forall>w. trim k \<noteq> [] \<and> newWallet E (trim k) = Inr w
          \<longrightarrow> fst (createWalletsFromKeys E [k]) = [newAccount w])
   \<and> fst (createWalletsFromKeys E ks)
       = concat (map (\<lambda>k. fst (createWalletsFromKeys E [k])) ks)
   \<and> length (fst (createWalletsFromKeys E ks)) = length (filter (parsesAsKey E) ks)
   \<and> (\<not> isValidPrivateKey E []
        \<longrightarrow> length (fst (createWalletsFromKeys E ks))
              = length (filter (\<lambda>k. isValidPrivateKey E (trim k)) ks))"
proof -
  have a: "length (fst (createWalletsFromKeys E [k]))
     = (if isValidPrivateKey E (trim k) \<and> trim k \<noteq> [] then 1 else 0)"
    using importKey_length [of E k] by (simp only: cwfk_single parsesAsKey_def conj_commute)
  have b: "\<forall>w. trim k \<noteq> [] \<and> newWallet E (trim k) = Inr w
          \<longrightarrow> fst (createWalletsFromKeys E [k]) = [newAccount w]"
    by (simp add: cwfk_single importKey_def del: createWalletsFromKeys.simps(2))
  have c: "fst (createWalletsFromKeys E ks)
       = concat (map (\<lambda>k. fst (createWalletsFromKeys E [k])) ks)"
    by (simp only: cwfk_single cwfk_fst_concat)
  have d: "\<not> isValidPrivateKey E [] \<Longrightarrow> parsesAsKey E = (\<lambda>k. isValidPrivateKey E (trim k))"
    by (auto simp: parsesAsKey_def fun_eq_iff)
  show ?thesis
    using a b c d cwfk_length [of E ks] by simp
qed

lemma testEthers_simps:
  "newWallet testEthers k = (if k = ''k1'' then Inr (''a1'', ''k1'')
                      else if k = ''k2'' then Inr (''a2'', ''k2'') else Inl invalidKeyError)"
  "parseEther testEthers s = Inr 10"
  "formatEther testEthers n = (if n = 0 then ''0.0'' else ''1.0'')"
  by (simp_all add: testEthers_def)

lemma trim_examples:
  "trim '' k1 '' = ''k1''" "trim ''zz'' = ''zz''" "trim ''k2'' = ''k2''" "trim ''  '' = []"
  by (simp_all add: trim_def isWhiteSpace_def)

theorem import_agrees_with_validation_witness:
  "trim '' k1 '' \<noteq> [] \<and> newWallet testEthers (trim '' k1 '') = Inr (''a1'', ''k1'')
   \<and> fst (createWalletsFromKeys testEthers ['' k1 '']) = [wallet1]
   \<and> \<not> isValidPrivateKey testEthers []
   \<and> length (fst (createWalletsFromKeys testEthers ['' k1 '', ''zz'', ''  '', ''k2''])) = 2"
  using import_agrees_with_validation [of testEthers "'' k1 ''" "['' k1 '', ''zz'', ''  '', ''k2'']"]
  by (simp add: cwfk_single importKey_def parsesAsKey_def trim_examples testEthers_simps
        isValidPrivateKey_def wallet1_def del: createWalletsFromKeys.simps)

section \<open>Preparing a fleet from imported keys\<close>

lemma prepareFleet_Import:
  "walletMode (form st) = Import \<Longrightarrow>
   prepareFleet E st =
     (let r = createWalletsFromKeys E (splitNL (importText (form st)));
          st2 = (addLog ''Parsing imported keys...'' INFO None st)\<lparr>console := console st @ snd r\<rparr>
      in if fst r = [] then ([], addLog ''No valid keys found in import.'' ERROR None st2)
         else (fst r, (addLog (''Imported '' @ decimal (length (fst r)) @ '' wallets.'')
                         SUCCESS None st2)\<lparr>wallets := fst r\<rparr>))"
  by (simp add: prepareFleet_def addLog_def Let_def split: prod.splits)

lemma cwfk_empty_iff:
  "fst (createWalletsFromKeys E ks) = [] \<longleftrightarrow> filter (parsesAsKey E) ks = []"
  using cwfk_length [of E ks] by (metis length_0_conv)

text \<open>
  C7, as the code has it. In import mode the fleet \<open>prepareFleet\<close> returns has one wallet
  per line that is not blank and whose trimmed content is a valid key. Every other
  non-blank line yields no wallet and one \<open>console.warn\<close> message; the log stream gets
  no entry of type WARNING. When no line parses, the result is empty, the log ends
  with an ERROR entry and the stored fleet is not replaced; otherwise the stored fleet
  is the returned one.
\<close>

theorem prepareFleet_import:
  "walletMode (form st) = Import \<Longrightarrow>
     length (fst (prepareFleet E st))
       = length (filter (parsesAsKey E) (splitNL (importText (form st))))
   \<and> console (snd (prepareFleet E st))
       = console st @ map (\<lambda>k. (ConsoleWarn, ''Invalid key skipped during import: '' @ k))
                        (filter (invalidLine E) (splitNL (importText (form st))))
   \<and> countLogs WARNING (logs (snd (prepareFleet E st))) = countLogs WARNING (logs st)
   \<and> (if filter (parsesAsKey E) (splitNL (importText (form st))) = []
      then fst (prepareFleet E st) = []
         \<and> wallets (snd (prepareFleet E st)) = wallets st
         \<and> logs (snd (prepareFleet E st))
             = logs st @ [\<lparr>message = ''Parsing imported keys...'', ltype = INFO, txHash = None\<rparr>,
                          \<lparr>message = ''No valid keys found in import.'', ltype = ERROR,
                           txHash = None\<rparr>]
      else wallets (snd (prepareFleet E st)) = fst (prepareFleet E st))"
  by (simp add: prepareFleet_Import Let_def cwfk_empty_iff cwfk_length cwfk_console
        addLog_def countLogs_append del: createWalletsFromKeys.simps)

lemma splitNL_examples:
  "splitNL ''zz'' = [''zz'']"
  "splitNL (''k1'' @ [CHR 0x0A] @ ''zz'') = [''k1'', ''zz'']"
  by simp_all

lemma trim_k1: "trim ''k1'' = ''k1''"
  by (simp add: trim_def isWhiteSpace_def)

lemma line_examples:
  "parsesAsKey testEthers ''k1''" "\<not> parsesAsKey testEthers ''zz''"
  "invalidLine testEthers ''zz''" "\<not> invalidLine testEthers ''k1''"
  by (simp_all add: parsesAsKey_def invalidLine_def trim_examples trim_k1
        isValidPrivateKey_def testEthers_simps)

theorem prepareFleet_import_witness:
  "walletMode (form mixedImportState) = Import
   \<and> length (fst (prepareFleet testEthers mixedImportState)) = 1
   \<and> console (snd (prepareFleet testEthers mixedImportState))
       = [(ConsoleWarn, ''Invalid key skipped during import: zz'')]
   \<and> countLogs WARNING (logs (snd (prepareFleet testEthers mixedImportState))) = 0
   \<and> wallets (snd (prepareFleet testEthers mixedImportState))
       = fst (prepareFleet testEthers mixedImportState)"
  using prepareFleet_import [of mixedImportState testEthers]
  by (simp add: mixedImportState_def initialApp_def initialForm_def splitNL_examples
        line_examples)

text \<open>
  The claim C7 promises one warning-level log entry per invalid line. With the single
  invalid line \<open>zz\<close> the import appends an INFO and an ERROR entry and no WARNING entry.
\<close>

theorem import_warning_counterexample:
  "length (filter (invalidLine testEthers) (splitNL (importText (form importState)))) = 1
   \<and> countLogs WARNING (logs (snd (prepareFleet testEthers importState))) = 0
   \<and> console (snd (prepareFleet testEthers importState))
       = [(ConsoleWarn, ''Invalid key skipped during import: zz'')]"
  by (simp add: importState_def initialApp_def initialForm_def splitNL_examples line_examples
        prepareFleet_Import Let_def cwfk_single importKey_def trim_examples testEthers_simps
        addLog_def del: createWalletsFromKeys.simps)

section \<open>Refreshing balances\<close>

lemma refreshFrom_wallets:
  "fst (refreshFrom E rep i ws)
     = map (\<lambda>(j, w). w\<lparr>balance := fst (getBalance E (rep j))\<rparr>) (enumerate i ws)"
  by (induction ws arbitrary: i) (simp_all add: split_beta)

lemma balanceQueries_append:
  "balanceQueries (xs @ ys) = balanceQueries xs @ balanceQueries ys"
  by (induction xs rule: balanceQueries.induct) simp_all

lemma refreshFrom_queries:
  "balanceQueries (snd (snd (refreshFrom E rep i ws))) = map address ws"
  by (induction ws arbitrary: i) (simp_all add: split_beta)

lemma updateFleetBalances_wallets:
  "wallets (updateFleetBalances E rep cw st) = fst (refreshFrom E rep 0 cw)"
  by (simp add: updateFleetBalances_def Let_def addLog_def split: prod.splits)

lemma updateFleetBalances_history:
  "history (updateFleetBalances E rep cw st) = history st @ snd (snd (refreshFrom E rep 0 cw))"
  by (simp add: updateFleetBalances_def Let_def addLog_def split: prod.splits)

lemma updateFleetBalances_others:
  "stats (updateFleetBalances E rep cw st) = stats st"
  "isFunding (updateFleetBalances E rep cw st) = isFunding st"
  "isSwarming (updateFleetBalances E rep cw st) = isSwarming st"
  "tasks (updateFleetBalances E rep cw st) = tasks st"
  "form (updateFleetBalances E rep cw st) = form st"
  by (simp_all add: updateFleetBalances_def Let_def addLog_def split: prod.splits)

lemma getBalance_fst:
  "fst (getBalance E r) = (case r of Inr b \<Rightarrow> formatEther E b | Inl e \<Rightarrow> ''0'')"
  by (simp add: getBalance_def split: sum.splits)

text \<open>
  C9. \<open>updateFleetBalances\<close> keeps the length of the list it is given and, at every
  index, the address, the private key, the transaction count and the status; the
  balance becomes the formatted answer of that wallet's query, or \<open>'0'\<close> when the query
  failed. Every wallet is queried, in order, whatever the earlier answers were, and
  the counters are untouched.
\<close>

theorem updateFleetBalances_frame:
  "length (wallets (updateFleetBalances E rep cw st)) = length cw
   \<and> (\<forall>i < length cw.
        address (wallets (updateFleetBalances E rep cw st) ! i) = address (cw ! i)
      \<and> privateKey (wallets (updateFleetBalances E rep cw st) ! i) = privateKey (cw ! i)
      \<and> txCount (wallets (updateFleetBalances E rep cw st) ! i) = txCount (cw ! i)
      \<and> status (wallets (updateFleetBalances E rep cw st) ! i) = status (cw ! i)
      \<and> balance (wallets (updateFleetBalances E rep cw st) ! i)
          = (case rep i of Inr b \<Rightarrow> formatEther E b | Inl e \<Rightarrow> ''0''))
   \<and> balanceQueries (history (updateFleetBalances E rep cw st))
       = balanceQueries (history st) @ map address cw
   \<and> stats (updateFleetBalances E rep cw st) = stats st"
  by (simp add: updateFleetBalances_wallets updateFleetBalances_history
        updateFleetBalances_others refreshFrom_wallets refreshFrom_queries
        balanceQueries_append nth_enumerate_eq getBalance_fst)

theorem updateFleetBalances_frame_witness:
  "(1::nat) < length (wallets fleetOfTwo)
   \<and> length (wallets (updateFleetBalances testEthers
        (\<lambda>i. if i = 0 then Inl queryFailed else Inr 5) (wallets fleetOfTwo) fleetOfTwo)) = 2
   \<and> balance (wallets (updateFleetBalances testEthers
        (\<lambda>i. if i = 0 then Inl queryFailed else Inr 5) (wallets fleetOfTwo) fleetOfTwo) ! 0) = ''0''
   \<and> balance (wallets (updateFleetBalances testEthers
        (\<lambda>i. if i = 0 then Inl queryFailed else Inr 5) (wallets fleetOfTwo) fleetOfTwo) ! 1) = ''1.0''
   \<and> txCount (wallets (updateFleetBalances testEthers
        (\<lambda>i. if i = 0 then Inl queryFailed else Inr 5) (wallets fleetOfTwo) fleetOfTwo) ! 1) = 3
   \<and> status (wallets (updateFleetBalances testEthers
        (\<lambda>i. if i = 0 then Inl queryFailed else Inr 5) (wallets fleetOfTwo) fleetOfTwo) ! 1) = Done"
  using updateFleetBalances_frame [of testEthers "\<lambda>i. if i = 0 then Inl queryFailed else Inr 5"
          "wallets fleetOfTwo" fleetOfTwo]
  by (simp add: fleetOfTwo_def initialApp_def testEthers_simps All_less_Suc2 numeral_2_eq_2)

section \<open>Resetting the fleet\<close>

text \<open>
  C8. A click on the reset button while a fund or swarm operation is in flight leaves
  the whole state as it is. A click when none is in flight empties the fleet and sets
  the three counters to zero. The button exists whenever the fleet is not empty.
\<close>

theorem clickResetFleet_guarded:
  "(isBusy st \<and> clickResetFleet st = Some st' \<longrightarrow> st' = st)
   \<and> (\<not> isBusy st \<and> clickResetFleet st = Some st'
        \<longrightarrow> wallets st' = [] \<and> stats st' = zeroStats)
   \<and> (wallets st \<noteq> [] \<longrightarrow> clickResetFleet st \<noteq> None)"
  by (auto simp: clickResetFleet_def resetFleet_def addLog_def split: if_splits)

theorem clickResetFleet_guarded_witness:
  "isBusy busyState \<and> clickResetFleet busyState = Some busyState
   \<and> \<not> isBusy noTargetState \<and> wallets noTargetState \<noteq> []
   \<and> clickResetFleet noTargetState = Some (resetFleet noTargetState)
   \<and> wallets (resetFleet noTargetState) = [] \<and> stats (resetFleet noTargetState) = zeroStats"
  using clickResetFleet_guarded [of busyState busyState]
    clickResetFleet_guarded [of noTargetState "resetFleet noTargetState"]
  by (simp add: busyState_def noTargetState_def initialApp_def isBusy_def clickResetFleet_def)

section \<open>Starting a swarm: the guards\<close>




section \<open>The request of a swarm transaction\<close>

text \<open>
  C2 says that every transaction of a swarm is handed to the client with the
  configured gas limit. The request \<open>executeInteraction\<close> builds never carries a gas
  limit, whatever the form holds: in a run with one wallet, gas limit 300000 and the
  fetched nonce 7, the one request handed to the client has nonce 7 and no gas limit.
\<close>

theorem swarm_request_without_gasLimit:
  "txGasLimit (snd (executeInteraction walletData target data nonce)) = None
   \<and> gasLimit (form readyState) = 300000
   \<and> history (run testEthers [ClickStart, Resume 0 (NonceReply (Inr 7))] readyState)
       = [(0, GetTransactionCount ''a1''),
          (0, Replied (NonceReply (Inr 7))),
          (0, SendTransaction ''k1''
                \<lparr>txTo = ''0xABC'', txValue = 0, txData = Some ''0x'', txNonce = Some 7,
                 txGasLimit = None\<rparr>)]"
  by (simp add: executeInteraction_def run_def readyState_def initialApp_def initialForm_def
        handleStartSwarm_def addLog_def resume_def spawn_def wallet1_def newAccount_def
        observe_def setTask_def iteration_def setWallets_def updateAt_def Let_def)

section \<open>What each state update touches\<close>

lemma addLog_fields [simp]:
  "wallets (addLog m t h st) = wallets st"
  "stats (addLog m t h st) = stats st"
  "history (addLog m t h st) = history st"
  "tasks (addLog m t h st) = tasks st"
  "isFunding (addLog m t h st) = isFunding st"
  "isSwarming (addLog m t h st) = isSwarming st"
  "form (addLog m t h st) = form st"
  "console (addLog m t h st) = console st"
  "logs (addLog m t h st) = logs st @ [\<lparr>message = m, ltype = t, txHash = h\<rparr>]"
  by (simp_all add: addLog_def)

lemma observe_fields [simp]:
  "wallets (observe w io st) = wallets st"
  "stats (observe w io st) = stats st"
  "history (observe w io st) = history st @ [(w, io)]"
  "tasks (observe w io st) = tasks st"
  "isFunding (observe w io st) = isFunding st"
  "isSwarming (observe w io st) = isSwarming st"
  "form (observe w io st) = form st"
  "console (observe w io st) = console st"
  "logs (observe w io st) = logs st"
  by (simp_all add: observe_def)

lemma setWallets_fields [simp]:
  "wallets (setWallets f st) = f (wallets st)"
  "stats (setWallets f st) = stats st"
  "history (setWallets f st) = history st"
  "tasks (setWallets f st) = tasks st"
  "isFunding (setWallets f st) = isFunding st"
  "isSwarming (setWallets f st) = isSwarming st"
  "form (setWallets f st) = form st"
  "console (setWallets f st) = console st"
  "logs (setWallets f st) = logs st"
  by (simp_all add: setWallets_def)

lemma setStats_fields [simp]:
  "wallets (setStats f st) = wallets st"
  "stats (setStats f st) = f (stats st)"
  "history (setStats f st) = history st"
  "tasks (setStats f st) = tasks st"
  "isFunding (setStats f st) = isFunding st"
  "isSwarming (setStats f st) = isSwarming st"
  "form (setStats f st) = form st"
  "console (setStats f st) = console st"
  "logs (setStats f st) = logs st"
  by (simp_all add: setStats_def)

lemma setTask_fields [simp]:
  "wallets (setTask w f st) = wallets st"
  "stats (setTask w f st) = stats st"
  "history (setTask w f st) = history st"
  "tasks (setTask w f st) = (tasks st)[w := f (tasks st ! w)]"
  "isFunding (setTask w f st) = isFunding st"
  "isSwarming (setTask w f st) = isSwarming st"
  "form (setTask w f st) = form st"
  "console (setTask w f st) = console st"
  "logs (setTask w f st) = logs st"
  by (simp_all add: setTask_def)

lemma updateAt_length [simp]: "length (updateAt i f ws) = length ws"
  by (simp add: updateAt_def)


lemma updateAt_keeps:
  "(\<And>a. g (f a) = g a) \<Longrightarrow> map g (updateAt i f ws) = map g ws"
  by (simp add: updateAt_def map_update list_update_same_conv)

lemma waits_append [simp]: "waits (xs @ ys) = waits xs @ waits ys"
  by (induction xs rule: waits.induct) simp_all

lemma iteration_fields [simp]:
  "stats (iteration w i st) = stats st"
  "isFunding (iteration w i st) = isFunding st"
  "isSwarming (iteration w i st) = isSwarming st"
  "form (iteration w i st) = form st"
  "length (wallets (iteration w i st)) = length (wallets st)"
  "map txCount (wallets (iteration w i st)) = map txCount (wallets st)"
  "waits (history (iteration w i st)) = waits (history st)"
  by (simp_all add: iteration_def Let_def updateAt_keeps)


lemma resumeAt_fields [simp]:
  "isFunding (resumeAt w pc r st) = isFunding st"
  "isSwarming (resumeAt w pc r st) = isSwarming st"
  "form (resumeAt w pc r st) = form st"
  "length (wallets (resumeAt w pc r st)) = length (wallets st)"
  "waits (history (resumeAt w pc r st)) = waits (history st)"
  by (induction w pc r st rule: resumeAt.induct) simp_all

lemma resume_fields [simp]:
  "isFunding (resume w r st) = isFunding st"
  "isSwarming (resume w r st) = isSwarming st"
  "form (resume w r st) = form st"
  "length (wallets (resume w r st)) = length (wallets st)"
  "waits (history (resume w r st)) = waits (history st)"
  by (simp_all add: resume_def)


lemma refreshFrom_length [simp]: "length (fst (refreshFrom E rep i ws)) = length ws"
  by (induction ws arbitrary: i) (simp_all add: split_beta)


lemma prepareFleet_fields [simp]:
  "stats (snd (prepareFleet E st)) = stats st"
  "tasks (snd (prepareFleet E st)) = tasks st"
  "isSwarming (snd (prepareFleet E st)) = isSwarming st"
  "isFunding (snd (prepareFleet E st)) = isFunding st"
  "form (snd (prepareFleet E st)) = form st"
  by (simp_all add: prepareFleet_def Let_def split_beta del: createWalletsFromKeys.simps)

lemma onFunded_fields [simp]:
  "stats (onFunded i txh st) = stats st"
  "tasks (onFunded i txh st) = tasks st"
  "isSwarming (onFunded i txh st) = isSwarming st"
  "isFunding (onFunded i txh st) = isFunding st"
  "form (onFunded i txh st) = form st"
  "console (onFunded i txh st) = console st"
  "history (onFunded i txh st) = history st"
  "length (wallets (onFunded i txh st)) = length (wallets st)"
  "map txCount (wallets (onFunded i txh st)) = map txCount (wallets st)"
  by (simp_all add: onFunded_def updateAt_keeps)

lemma fundOne_fields:
  "stats (fundOne sendRep waitRep key amt onFunded i t st) = stats st"
  "tasks (fundOne sendRep waitRep key amt onFunded i t st) = tasks st"
  "isSwarming (fundOne sendRep waitRep key amt onFunded i t st) = isSwarming st"
  "isFunding (fundOne sendRep waitRep key amt onFunded i t st) = isFunding st"
  "form (fundOne sendRep waitRep key amt onFunded i t st) = form st"
  "length (wallets (fundOne sendRep waitRep key amt onFunded i t st)) = length (wallets st)"
  "map txCount (wallets (fundOne sendRep waitRep key amt onFunded i t st))
     = map txCount (wallets st)"
  by (simp_all add: fundOne_def Let_def split: sum.splits)

lemma fundLoop_fields [simp]:
  "stats (fundLoop sendRep waitRep key amt onFunded i ts st) = stats st"
  "tasks (fundLoop sendRep waitRep key amt onFunded i ts st) = tasks st"
  "isSwarming (fundLoop sendRep waitRep key amt onFunded i ts st) = isSwarming st"
  "isFunding (fundLoop sendRep waitRep key amt onFunded i ts st) = isFunding st"
  "form (fundLoop sendRep waitRep key amt onFunded i ts st) = form st"
  "length (wallets (fundLoop sendRep waitRep key amt onFunded i ts st)) = length (wallets st)"
  "map txCount (wallets (fundLoop sendRep waitRep key amt onFunded i ts st))
     = map txCount (wallets st)"
  by (induction ts arbitrary: i st; simp add: fundOne_fields)+

lemma handleFundFleet_fields [simp]:
  "stats (handleFundFleet E sendRep waitRep balRep st) = stats st"
  "tasks (handleFundFleet E sendRep waitRep balRep st) = tasks st"
  "isSwarming (handleFundFleet E sendRep waitRep balRep st) = isSwarming st"
  "form (handleFundFleet E sendRep waitRep balRep st) = form st"
  by (simp_all add: handleFundFleet_def fundWallets_def Let_def updateFleetBalances_others
        split: sum.splits)



section \<open>The aggregate counters\<close>

lemma resumeAt_stats_sum:
  "totalTx (stats st) = successfulTx (stats st) + failedTx (stats st) \<Longrightarrow>
   totalTx (stats (resumeAt w pc r st))
     = successfulTx (stats (resumeAt w pc r st)) + failedTx (stats (resumeAt w pc r st))"
  by (induction w pc r st rule: resumeAt.induct) simp_all

lemma resumeAt_stats_le: "statsLe (stats st) (stats (resumeAt w pc r st))"
  by (induction w pc r st rule: resumeAt.induct) (simp_all add: statsLe_def)

lemma handleStartSwarm_busy: "isFunding st \<or> isSwarming st \<Longrightarrow> handleStartSwarm st = st"
  by (simp add: handleStartSwarm_def)

lemma handleStartSwarm_stats:
  "stats (handleStartSwarm st) = stats st \<or> stats (handleStartSwarm st) = zeroStats"
  by (simp add: handleStartSwarm_def Let_def)

lemma swarmJoin_stats [simp]: "stats (swarmJoin E balRep st) = stats st"
  by (simp add: swarmJoin_def Let_def updateFleetBalances_others)

lemma step_stats_sum:
  assumes "totalTx (stats st) = successfulTx (stats st) + failedTx (stats st)"
  shows "totalTx (stats (step E e st))
     = successfulTx (stats (step E e st)) + failedTx (stats (step E e st))"
proof (cases e)
  case ClickStart
  then show ?thesis
    using assms handleStartSwarm_stats [of st] by (auto simp: zeroStats_def)
next
  case (Resume w r)
  then show ?thesis using assms by (simp add: resume_def resumeAt_stats_sum)
next
  case ClickReset
  then show ?thesis
    using assms by (simp add: clickResetFleet_def resetFleet_def zeroStats_def)
next
  case (ClickRefresh balRep)
  then show ?thesis using assms by (simp add: clickRefresh_def updateFleetBalances_others)
qed (use assms in \<open>simp_all add: handleDownloadWallets_def\<close>)

lemma run_stats_sum:
  "totalTx (stats st) = successfulTx (stats st) + failedTx (stats st) \<Longrightarrow>
   totalTx (stats (run E evs st))
     = successfulTx (stats (run E evs st)) + failedTx (stats (run E evs st))"
  unfolding run_def
  by (induction evs arbitrary: st) (simp_all add: step_stats_sum)

lemma step_stats_le_in_run:
  assumes "isSwarming st"
  shows "statsLe (stats st) (stats (step E e st))"
proof (cases e)
  case (Resume w r)
  then show ?thesis
    using resumeAt_stats_le [of st w "tPc (tasks st ! w)" r]
    by (simp add: resume_def statsLe_def)
next
  case ClickStart
  with assms show ?thesis by (simp add: handleStartSwarm_busy statsLe_def)
next
  case ClickReset
  with assms show ?thesis by (simp add: clickResetFleet_def isBusy_def statsLe_def)
next
  case (ClickRefresh balRep)
  then show ?thesis by (simp add: clickRefresh_def updateFleetBalances_others statsLe_def)
qed (simp_all add: handleDownloadWallets_def statsLe_def)

text \<open>
  C4. In every state reached from the initial one, and from any state whose counters
  add up, \<open>totalTx = successfulTx + failedTx\<close>. While a swarm is in flight no event
  lowers any of the three counters. A start that passes the guards sets the three
  counters to zero and raises the swarm flag.
\<close>

theorem stats_invariant:
  "totalTx (stats (run E evs initialApp))
     = successfulTx (stats (run E evs initialApp)) + failedTx (stats (run E evs initialApp))
   \<and> (totalTx (stats st) = successfulTx (stats st) + failedTx (stats st)
        \<longrightarrow> totalTx (stats (run E evs st))
              = successfulTx (stats (run E evs st)) + failedTx (stats (run E evs st)))
   \<and> (isSwarming s \<longrightarrow> statsLe (stats s) (stats (step E e s)))
   \<and> (\<not> isBusy s0 \<and> targetContract (form s0) \<noteq> [] \<and> wallets s0 \<noteq> []
        \<longrightarrow> stats (handleStartSwarm s0) = zeroStats \<and> isSwarming (handleStartSwarm s0))"
proof -
  have "totalTx (stats initialApp) = successfulTx (stats initialApp) + failedTx (stats initialApp)"
    by (simp add: initialApp_def zeroStats_def)
  then have "totalTx (stats (run E evs initialApp))
     = successfulTx (stats (run E evs initialApp)) + failedTx (stats (run E evs initialApp))"
    by (rule run_stats_sum)
  moreover have "\<not> isBusy s0 \<and> targetContract (form s0) \<noteq> [] \<and> wallets s0 \<noteq> []
        \<longrightarrow> stats (handleStartSwarm s0) = zeroStats \<and> isSwarming (handleStartSwarm s0)"
    by (simp add: handleStartSwarm_def isBusy_def Let_def)
  ultimately show ?thesis
    using run_stats_sum [of st E evs] step_stats_le_in_run [of s E e] by blast
qed

lemma swarm_simps:
  "readyState = initialApp\<lparr>wallets := [wallet1],
     form := initialForm\<lparr>targetContract := ''0xABC'', interactionsPerWallet := 1\<rparr>\<rparr>"
  "wallet1 = \<lparr>address = ''a1'', privateKey = ''k1'', balance = ''0'', txCount = 0, status = Idle\<rparr>"
  by (simp_all add: readyState_def wallet1_def newAccount_def)

lemmas eval_defs = run_def initialApp_def initialForm_def handleStartSwarm_def addLog_def
  resume_def spawn_def observe_def setTask_def iteration_def setWallets_def setStats_def
  updateAt_def executeInteraction_def Let_def zeroStats_def isBusy_def

theorem stats_invariant_witness:
  "totalTx (stats usedState) = successfulTx (stats usedState) + failedTx (stats usedState)
   \<and> stats usedState = \<lparr>totalTx = 3, successfulTx = 2, failedTx = 1\<rparr>
   \<and> \<not> isBusy usedState \<and> targetContract (form usedState) \<noteq> [] \<and> wallets usedState \<noteq> []
   \<and> stats (handleStartSwarm usedState) = \<lparr>totalTx = 0, successfulTx = 0, failedTx = 0\<rparr>
   \<and> isSwarming (run testEthers [ClickStart, Resume 0 (NonceReply (Inr 7))] usedState)
   \<and> stats (run testEthers [ClickStart, Resume 0 (NonceReply (Inr 7)),
         Resume 0 (SendReply (Inl sendRejected))] usedState)
       = \<lparr>totalTx = 1, successfulTx = 0, failedTx = 1\<rparr>
   \<and> statsLe (stats (run testEthers [ClickStart, Resume 0 (NonceReply (Inr 7))] usedState))
        (stats (step testEthers (Resume 0 (SendReply (Inl sendRejected)))
           (run testEthers [ClickStart, Resume 0 (NonceReply (Inr 7))] usedState)))"
  using stats_invariant [of testEthers
      "[ClickStart, Resume 0 (NonceReply (Inr 7)), Resume 0 (SendReply (Inl sendRejected))]"
      usedState "run testEthers [ClickStart, Resume 0 (NonceReply (Inr 7))] usedState"
      "Resume 0 (SendReply (Inl sendRejected))" usedState]
  by (simp add: usedState_def swarm_simps eval_defs)

section \<open>The transaction count of a wallet\<close>



lemma handleStartSwarm_wallets [simp]: "wallets (handleStartSwarm st) = wallets st"
  by (simp add: handleStartSwarm_def Let_def)











section \<open>The nonces of a swarm task\<close>

lemma nonceFetches_append [simp]:
  "nonceFetches (xs @ ys) = nonceFetches xs @ nonceFetches ys"
  by (induction xs rule: nonceFetches.induct) simp_all

lemma fetchedNonces_append [simp]:
  "fetchedNonces (xs @ ys) = fetchedNonces xs @ fetchedNonces ys"
  by (induction xs rule: fetchedNonces.induct) simp_all

lemma sentNonces_append [simp]:
  "sentNonces (xs @ ys) = sentNonces xs @ sentNonces ys"
  by (induction xs rule: sentNonces.induct) simp_all

lemma taskTrace_append [simp]: "taskTrace w (xs @ ys) = taskTrace w xs @ taskTrace w ys"
  by (simp add: taskTrace_def)






lemma iterationT_tCount [simp]: "tCount (fst (iterationT i t)) = tCount t"
  by (simp add: iterationT_def)

lemma taskStep_tCount [simp]: "tCount (fst (taskStep pc r t)) = tCount t"
  by (induction pc r t rule: taskStep.induct) simp_all
















section \<open>Funding the fleet\<close>

lemma transfers_append [simp]: "transfers (xs @ ys) = transfers xs @ transfers ys"
  by (induction xs rule: transfers.induct) simp_all

lemma notified_append [simp]: "notified (xs @ ys) = notified xs @ notified ys"
  by (induction xs rule: notified.induct) simp_all

lemma pendingAfter_append [simp]:
  "pendingAfter c (xs @ ys) = pendingAfter (pendingAfter c xs) ys"
  by (induction c xs rule: pendingAfter.induct) simp_all

lemma oneAtATime_append [simp]:
  "oneAtATime c (xs @ ys) \<longleftrightarrow> oneAtATime c xs \<and> oneAtATime (pendingAfter c xs) ys"
  by (induction c xs rule: oneAtATime.induct) simp_all



















end
